theory Spec2Isabelle
  imports Complex_Main
begin

section \<open>Option defaults of \<^verbatim>\<open>lp_data/HighsLp.h\<close>\<close>

text \<open>
  The header declares the option block \<^verbatim>\<open>struct HighsOptions\<close> with an in-class
  initialiser for every member. The record below has one field per member, in the order of
  the header; \<^verbatim>\<open>default_HighsOptions\<close> is the value a default-constructed struct holds.
  A C++ \<^verbatim>\<open>double\<close> literal is read as the real number it denotes, a C++
  \<^verbatim>\<open>int\<close> as an integer (no arithmetic is performed on either, so neither rounding nor
  wrap-around can occur), and the two \<^verbatim>\<open>FILE*\<close> members as the name of the stream they
  are initialised with. The member \<^verbatim>\<open>output\<close> is the field \<open>output_file\<close>, because
  \<open>output\<close> is reserved in Isabelle.
\<close>

datatype HighsMpsParserType = free | fixed

datatype objSense = OBJSENSE_MINIMIZE | OBJSENSE_MAXIMIZE

fun objSense_value :: "objSense \<Rightarrow> int" where
  "objSense_value OBJSENSE_MINIMIZE = 1"
| "objSense_value OBJSENSE_MAXIMIZE = - 1"

datatype file_stream = stdout

record HighsOptions =
  filenames :: string
  pami :: bool
  sip :: bool
  scip :: bool
  timeLimit :: real
  parser_type :: HighsMpsParserType
  presolveMode :: string
  crashMode :: string
  edWtMode :: string
  priceMode :: string
  partitionFile :: string
  output_file :: file_stream
  messageLevel :: int
  logfile :: file_stream
  transposeLp :: bool
  scaleLp :: bool
  permuteLp :: bool
  tightenLp :: bool
  primalFeasibilityTolerance :: real
  dualFeasibilityTolerance :: real
  perturbCostsSimplex :: bool
  iterationLimitSimplex :: int
  dualObjectiveValueUpperBound :: real
  clean_up :: bool

definition default_HighsOptions :: HighsOptions where
  "default_HighsOptions = \<lparr>
     filenames = '''',
     pami = False,
     sip = False,
     scip = False,
     timeLimit = 0,
     parser_type = free,
     presolveMode = ''off'',
     crashMode = ''off'',
     edWtMode = ''dse2dvx'',
     priceMode = ''rowswcolsw'',
     partitionFile = '''',
     output_file = stdout,
     messageLevel = 0,
     logfile = stdout,
     transposeLp = False,
     scaleLp = True,
     permuteLp = False,
     tightenLp = False,
     primalFeasibilityTolerance = 1 / 10 ^ 7,
     dualFeasibilityTolerance = 1 / 10 ^ 7,
     perturbCostsSimplex = True,
     iterationLimitSimplex = 999999,
     dualObjectiveValueUpperBound = 10 ^ 200,
     clean_up = False \<rparr>"

text \<open>
  The class \<^verbatim>\<open>HighsLp\<close> of the same header. The members end in an underscore in C++
  (\<^verbatim>\<open>numCol_\<close>, \<^verbatim>\<open>Astart_\<close>, ...); the fields drop it. The in-class initialisers give
  the empty LP \<open>default_HighsLp\<close>; the vectors are default-constructed, hence empty.
\<close>

record HighsLp =
  numCol :: int
  numRow :: int
  nnz :: int
  Astart :: "int list"
  Aindex :: "int list"
  Avalue :: "real list"
  colCost :: "real list"
  colLower :: "real list"
  colUpper :: "real list"
  rowLower :: "real list"
  rowUpper :: "real list"
  sense :: int
  offset :: real
  model_name :: string

definition default_HighsLp :: HighsLp where
  "default_HighsLp = \<lparr>
     numCol = 0, numRow = 0, nnz = 0,
     Astart = [], Aindex = [], Avalue = [],
     colCost = [], colLower = [], colUpper = [], rowLower = [], rowUpper = [],
     sense = 1, offset = 0, model_name = [] \<rparr>"

section \<open>Statuses and the post-run report\<close>

text \<open>
  Modelled from the spec: the three-valued call status and the model status that
  \<^verbatim>\<open>check/TestLpSolvers.cpp\<close> compares against are declared in \<^verbatim>\<open>Highs.h\<close>, which is not
  among the sources. Section 4.1 of the specification gives the call status as
  \<open>{Ok, Warning, Error}\<close> and section 3 enumerates the model status; the constructors carry
  the \<^verbatim>\<open>k\<close> prefix under which the test file names them (\<^verbatim>\<open>HighsStatus::kOk\<close>,
  \<^verbatim>\<open>HighsModelStatus::kIterationLimit\<close>, ...).
\<close>

datatype HighsStatus = kOk | kWarning | kError

datatype HighsModelStatus =
    kNotSet | kLoadError | kModelError | kPresolveError | kSolveError | kPostsolveError
  | kModelEmpty | kOptimal | kInfeasible | kUnboundedOrInfeasible | kUnbounded
  | kObjectiveBound | kObjectiveTarget | kTimeLimit | kIterationLimit | kUnknown

text \<open>
  Modelled from the spec: the iteration counts of the \<^verbatim>\<open>LpInfo\<close> snapshot (section 3), the
  fields of \<^verbatim>\<open>highs.getInfo()\<close> that the test file reads after a limited run.
\<close>

record HighsInfo =
  simplex_iteration_count :: int
  ipm_iteration_count :: int
  crossover_iteration_count :: int

text \<open>
  What a caller observes of one \<^verbatim>\<open>highs.run()\<close>: the returned status, then
  \<^verbatim>\<open>highs.getModelStatus()\<close> and \<^verbatim>\<open>highs.getInfo()\<close>.
\<close>

record run_report =
  return_status :: HighsStatus
  model_status :: HighsModelStatus
  info :: HighsInfo

section \<open>The requirements of \<^verbatim>\<open>check/TestLpSolvers.cpp\<close> on limited runs\<close>

text \<open>
  \<^verbatim>\<open>testSolver\<close>, lines 156 to 169: after the iteration limit of the engine under test has
  been set to zero, the run must return \<^verbatim>\<open>kWarning\<close> with model status
  \<^verbatim>\<open>kIterationLimit\<close>, and the iteration count of that engine must be zero.
\<close>

definition zero_limit_run_requires :: "bool \<Rightarrow> run_report \<Rightarrow> bool" where
  "zero_limit_run_requires use_simplex r \<longleftrightarrow>
     return_status r = kWarning \<and>
     model_status r = kIterationLimit \<and>
     (if use_simplex then simplex_iteration_count (info r) = 0
      else ipm_iteration_count (info r) = 0)"

text \<open>
  \<^verbatim>\<open>testSolver\<close>, lines 171 to 206: with the limit set to ten simplex iterations, or to five
  IPM iterations, the run must again return \<^verbatim>\<open>kWarning\<close> with \<^verbatim>\<open>kIterationLimit\<close>, and
  the count must equal the limit.
\<close>

definition further_simplex_iterations :: int where
  "further_simplex_iterations = 10"

definition further_ipm_iterations :: int where
  "further_ipm_iterations = 5"

definition further_limit_run_requires :: "bool \<Rightarrow> run_report \<Rightarrow> bool" where
  "further_limit_run_requires use_simplex r \<longleftrightarrow>
     return_status r = kWarning \<and>
     model_status r = kIterationLimit \<and>
     (if use_simplex then simplex_iteration_count (info r) = further_simplex_iterations
      else ipm_iteration_count (info r) = further_ipm_iterations)"




section \<open>The orchestrator and its two engines\<close>

text \<open>
  Modelled from the spec: \<^verbatim>\<open>Highs::run\<close>, the simplex engine and the IPM engine with its
  crossover are not among the sources; only their caller \<^verbatim>\<open>check/TestLpSolvers.cpp\<close> is.
  The definitions of this section follow sections 4.1 (routing in \<^verbatim>\<open>run()\<close>), 4.3 and 4.4
  (iteration budget), 5 (the budget is polled at every iteration) and 9 (the two engines as
  a tagged variant) of the specification. Presolve and postsolve are external collaborators
  whose internals the specification excludes (section 1): the model covers the run from the
  point where the LP is handed to an engine.
\<close>

datatype engine_kind = Simplex | IpmWithCrossover

text \<open>
  Modelled from the spec: an engine translates every way of finishing into a pair of call
  status and model status (section 7, propagation policy).
\<close>

type_synonym verdict = "HighsStatus \<times> HighsModelStatus"

text \<open>
  Modelled from the spec: the parts of the two engines that the specification leaves to the
  implementation, as they behave on the loaded model under the active options other than
  the iteration limits. \<open>'b\<close> is the simplex iterate (basis, solution and factorization),
  \<open>'p\<close> the interior iterate. \<open>simplex_finished\<close> and \<open>ipm_finished\<close> tell whether an
  iterate ends the run for a reason other than the iteration budget (optimality,
  infeasibility, unboundedness, objective bound, ...), and with which verdict;
  \<open>simplex_pivot\<close> and \<open>ipm_step\<close> perform one iteration; \<open>crossover\<close> turns a converged
  interior iterate into a basis and reports its own iteration count; \<open>choose_cold\<close> is the
  implementation-defined engine that \<^verbatim>\<open>solver = "choose"\<close> selects when there is no warm
  basis.
\<close>

record ('b, 'p) engines =
  logical_basis :: 'b
  simplex_finished :: "'b \<Rightarrow> verdict option"
  simplex_pivot :: "'b \<Rightarrow> 'b"
  ipm_start :: 'p
  ipm_finished :: "'p \<Rightarrow> verdict option"
  ipm_step :: "'p \<Rightarrow> 'p"
  crossover :: "'p \<Rightarrow> 'b \<times> nat"
  choose_cold :: engine_kind

text \<open>
  Modelled from the spec: what the orchestrator owns (sections 2 and 3): the model, the
  options that steer routing and budgets, the current basis if there is a valid one, and
  the model status and \<^verbatim>\<open>LpInfo\<close> recorded by the last run.
\<close>

record 'b orchestrator =
  lp :: HighsLp
  solver :: string
  use_warm_start :: bool
  simplex_iteration_limit :: nat
  ipm_iteration_limit :: nat
  basis :: "'b option"
  recorded_model_status :: HighsModelStatus
  recorded_info :: HighsInfo

text \<open>
  Modelled from the spec: the iteration loop shared by both engines. The first argument
  after the two engine parts is the remaining budget, the second the number of iterations
  performed so far. A budget trip ends the run at once with \<open>Warning\<close> and
  \<open>IterationLimit\<close> (sections 4.3 and 4.4: a limit of zero means zero iterations and
  \<open>IterationLimit\<close>; section 4.3, state machine: from any state a budget trip leads
  directly to \<open>Finished\<close>); otherwise the engine stops with its own verdict if the iterate
  has one, and else performs one more iteration.
\<close>

fun run_within_budget ::
  "('x \<Rightarrow> verdict option) \<Rightarrow> ('x \<Rightarrow> 'x) \<Rightarrow> nat \<Rightarrow> nat \<Rightarrow> 'x \<Rightarrow> verdict \<times> nat \<times> 'x"
where
  "run_within_budget finished iterate 0 count x = ((kWarning, kIterationLimit), count, x)"
| "run_within_budget finished iterate (Suc budget) count x =
     (case finished x of
        Some v \<Rightarrow> (v, count, x)
      | None \<Rightarrow> run_within_budget finished iterate budget (Suc count) (iterate x))"

text \<open>
  Modelled from the spec: routing step 3 of section 4.1. \<^verbatim>\<open>"simplex"\<close> selects the simplex
  engine, \<^verbatim>\<open>"ipm"\<close> the IPM with crossover; the remaining value \<^verbatim>\<open>"choose"\<close> selects the
  simplex engine for a re-solve with a warm basis and is implementation-defined otherwise.
\<close>

definition select_engine :: "('b, 'p) engines \<Rightarrow> 'b orchestrator \<Rightarrow> engine_kind" where
  "select_engine E s =
     (if solver s = ''simplex'' then Simplex
      else if solver s = ''ipm'' then IpmWithCrossover
      else if use_warm_start s \<and> basis s \<noteq> None then Simplex
      else choose_cold E)"

text \<open>
  Modelled from the spec: routing step 4 of section 4.1. A valid basis is reused when
  \<^verbatim>\<open>use_warm_start\<close> is set; in every other case the logical basis is installed.
\<close>

definition starting_basis :: "('b, 'p) engines \<Rightarrow> 'b orchestrator \<Rightarrow> 'b" where
  "starting_basis E s =
     (case basis s of
        Some b \<Rightarrow> if use_warm_start s then b else logical_basis E
      | None \<Rightarrow> logical_basis E)"

text \<open>
  Modelled from the spec: routing steps 5 and 7 for the simplex engine. The engine runs
  within \<^verbatim>\<open>simplex_iteration_limit\<close>; its final basis, its model status and a regenerated
  \<^verbatim>\<open>LpInfo\<close> are recorded (section 3: the values are regenerated on each run).
\<close>

definition run_simplex ::
  "('b, 'p) engines \<Rightarrow> 'b orchestrator \<Rightarrow> HighsStatus \<times> 'b orchestrator" where
  "run_simplex E s =
     (case run_within_budget (simplex_finished E) (simplex_pivot E)
             (simplex_iteration_limit s) 0 (starting_basis E s) of
        ((st, ms), count, b) \<Rightarrow>
          (st, s \<lparr> basis := Some b,
                   recorded_model_status := ms,
                   recorded_info := \<lparr> simplex_iteration_count = int count,
                                       ipm_iteration_count = 0,
                                       crossover_iteration_count = 0 \<rparr> \<rparr>))"

text \<open>
  Modelled from the spec: routing steps 5 and 7 for the IPM engine (section 4.4). The
  interior iterations run within \<^verbatim>\<open>ipm_iteration_limit\<close>; on convergence the interior
  solution is handed to the crossover, whose basis and iteration count are recorded. A run
  that does not converge leaves the basis as it was.
\<close>

definition run_ipm ::
  "('b, 'p) engines \<Rightarrow> 'b orchestrator \<Rightarrow> HighsStatus \<times> 'b orchestrator" where
  "run_ipm E s =
     (case run_within_budget (ipm_finished E) (ipm_step E)
             (ipm_iteration_limit s) 0 (ipm_start E) of
        ((st, ms), count, p) \<Rightarrow>
          if ms = kOptimal then
            (st, s \<lparr> basis := Some (fst (crossover E p)),
                     recorded_model_status := ms,
                     recorded_info := \<lparr> simplex_iteration_count = 0,
                                         ipm_iteration_count = int count,
                                         crossover_iteration_count =
                                           int (snd (crossover E p)) \<rparr> \<rparr>)
          else
            (st, s \<lparr> recorded_model_status := ms,
                     recorded_info := \<lparr> simplex_iteration_count = 0,
                                         ipm_iteration_count = int count,
                                         crossover_iteration_count = 0 \<rparr> \<rparr>))"

text \<open>
  Modelled from the spec: \<^verbatim>\<open>run()\<close> (section 4.1). An LP without columns is \<open>Optimal\<close>
  at once (step 1) and no engine iterates; any other LP goes to the selected engine.
\<close>

definition run :: "('b, 'p) engines \<Rightarrow> 'b orchestrator \<Rightarrow> HighsStatus \<times> 'b orchestrator" where
  "run E s =
     (if numCol (lp s) = 0 then
        (kOk, s \<lparr> recorded_model_status := kOptimal,
                  recorded_info := \<lparr> simplex_iteration_count = 0,
                                      ipm_iteration_count = 0,
                                      crossover_iteration_count = 0 \<rparr> \<rparr>)
      else case select_engine E s of
        Simplex \<Rightarrow> run_simplex E s
      | IpmWithCrossover \<Rightarrow> run_ipm E s)"

text \<open>
  What the caller of the modelled \<^verbatim>\<open>run()\<close> observes: the returned status, and the model
  status and \<^verbatim>\<open>LpInfo\<close> it then queries.
\<close>

definition report_of :: "HighsStatus \<times> 'b orchestrator \<Rightarrow> run_report" where
  "report_of res = \<lparr> return_status = fst res,
                     model_status = recorded_model_status (snd res),
                     info = recorded_info (snd res) \<rparr>"

section \<open>The limit checks of the engines\<close>








section \<open>Concrete instances\<close>

text \<open>
  The blending LP of the test case \<^verbatim>\<open>blending-lp-ipm\<close> (lines 465 to 475), written with
  the members of the header's \<^verbatim>\<open>HighsLp\<close>; the argument stands for the infinity sentinel
  \<^verbatim>\<open>kHighsInf\<close>, whose value is declared outside the sources.
\<close>

definition blending_lp :: "real \<Rightarrow> HighsLp" where
  "blending_lp infinity = \<lparr>
     numCol = 2, numRow = 2, nnz = 4,
     Astart = [0, 2, 4], Aindex = [0, 1, 0, 1], Avalue = [1, 1, 2, 4],
     colCost = [- 8, - 10], colLower = [0, 0], colUpper = [infinity, infinity],
     rowLower = [- infinity, - infinity], rowUpper = [80, 120],
     sense = 1, offset = 0, model_name = [] \<rparr>"

text \<open>
  A pair of engines whose iterates merely count the iterations performed: the simplex
  engine starts from \<open>0\<close> and is optimal from the twelfth iterate on, the IPM converges at
  the seventh, and the crossover returns the optimal basis \<open>12\<close> after two iterations of
  its own. Without a warm basis, \<^verbatim>\<open>solver = "choose"\<close> selects the IPM.
\<close>

definition counting_engines :: "(nat, nat) engines" where
  "counting_engines = \<lparr>
     logical_basis = 0,
     simplex_finished = (\<lambda>b. if 12 \<le> b then Some (kOk, kOptimal) else None),
     simplex_pivot = Suc,
     ipm_start = 0,
     ipm_finished = (\<lambda>p. if 7 \<le> p then Some (kOk, kOptimal) else None),
     ipm_step = Suc,
     crossover = (\<lambda>p. (12, 2)),
     choose_cold = IpmWithCrossover \<rparr>"

text \<open>
  An orchestrator that has just been given the blending LP: warm start enabled, no basis
  yet, no model status set. The arguments are the \<^verbatim>\<open>solver\<close> option and the two
  iteration limits.
\<close>

definition loaded_orchestrator :: "string \<Rightarrow> nat \<Rightarrow> nat \<Rightarrow> nat orchestrator" where
  "loaded_orchestrator sv simplex_limit ipm_limit = \<lparr>
     lp = blending_lp (10 ^ 30),
     solver = sv,
     use_warm_start = True,
     simplex_iteration_limit = simplex_limit,
     ipm_iteration_limit = ipm_limit,
     basis = None,
     recorded_model_status = kNotSet,
     recorded_info = \<lparr> simplex_iteration_count = 0, ipm_iteration_count = 0,
                       crossover_iteration_count = 0 \<rparr> \<rparr>"


section \<open>The default simplex iteration limit\<close>

text \<open>
  Claim C9, as stated: the default value of the simplex iteration-limit option, before any
  option is set, is at least \<open>10^6\<close>. The header initialises
  \<^verbatim>\<open>iterationLimitSimplex\<close> with \<open>999999\<close>, which is one short of \<open>10^6\<close>, so the
  statement fails on the default-constructed option block.
\<close>

theorem default_iteration_limit_below_million:
  "\<not> (10 ^ 6 \<le> iterationLimitSimplex default_HighsOptions)"
  by (simp add: default_HighsOptions_def)

text \<open>
  Claim C9, amended: the default value of the simplex iteration-limit option is exactly
  \<open>999999 = 10^6 - 1\<close>; it is at least \<open>10^5\<close> and strictly below \<open>10^6\<close>.
\<close>

theorem default_iteration_limit_value:
  "iterationLimitSimplex default_HighsOptions = 999999
   \<and> iterationLimitSimplex default_HighsOptions = 10 ^ 6 - 1
   \<and> 10 ^ 5 \<le> iterationLimitSimplex default_HighsOptions
   \<and> iterationLimitSimplex default_HighsOptions < 10 ^ 6"
  by (simp add: default_HighsOptions_def)

section \<open>Properties of the iteration loop and of the routing\<close>

text \<open>
  The loop stops on the budget after exactly as many iterations as the budget allows when
  no iterate before that has a verdict; it never performs more iterations than the budget;
  and it ends either on the budget or at an iterate that has the returned verdict.
\<close>

lemma within_budget_exhausted:
  "(\<forall>i<k. finished ((iterate ^^ i) x) = None) \<Longrightarrow>
     run_within_budget finished iterate k count x =
       ((kWarning, kIterationLimit), count + k, (iterate ^^ k) x)"
proof (induction k arbitrary: count x)
  case 0
  show ?case by simp
next
  case (Suc k)
  from Suc.prems have first: "finished x = None"
    by (metis funpow_0 zero_less_Suc)
  have rest: "\<forall>i<k. finished ((iterate ^^ i) (iterate x)) = None"
  proof (intro allI impI)
    fix i assume "i < k"
    then have "finished ((iterate ^^ Suc i) x) = None"
      using Suc.prems by (meson Suc_less_eq)
    then show "finished ((iterate ^^ i) (iterate x)) = None"
      by (simp add: funpow_swap1)
  qed
  show ?case
    using first Suc.IH [OF rest] by (simp add: funpow_swap1)
qed

lemma within_budget_count:
  "run_within_budget finished iterate k count x = (v, count', x') \<Longrightarrow>
     count \<le> count' \<and> count' \<le> count + k"
proof (induction k arbitrary: count x)
  case 0
  then show ?case by simp
next
  case (Suc k)
  show ?case
  proof (cases "finished x")
    case None
    with Suc.prems have
      "run_within_budget finished iterate k (Suc count) (iterate x) = (v, count', x')"
      by simp
    from Suc.IH [OF this] show ?thesis by simp
  next
    case (Some w)
    with Suc.prems show ?thesis by simp
  qed
qed


lemma run_simplex_report:
  "run_within_budget (simplex_finished E) (simplex_pivot E) (simplex_iteration_limit s) 0
      (starting_basis E s) = ((st, ms), count, b) \<Longrightarrow>
   report_of (run_simplex E s) =
     \<lparr> return_status = st, model_status = ms,
       info = \<lparr> simplex_iteration_count = int count, ipm_iteration_count = 0,
                crossover_iteration_count = 0 \<rparr> \<rparr>"
  by (simp add: run_simplex_def report_of_def)

lemma run_ipm_report:
  "run_within_budget (ipm_finished E) (ipm_step E) (ipm_iteration_limit s) 0
      (ipm_start E) = ((st, ms), count, p) \<Longrightarrow>
   return_status (report_of (run_ipm E s)) = st \<and>
   model_status (report_of (run_ipm E s)) = ms \<and>
   simplex_iteration_count (info (report_of (run_ipm E s))) = 0 \<and>
   ipm_iteration_count (info (report_of (run_ipm E s))) = int count"
  by (simp add: run_ipm_def report_of_def)

lemma run_routes:
  "numCol (lp s) \<noteq> 0 \<Longrightarrow> select_engine E s = Simplex \<Longrightarrow> run E s = run_simplex E s"
  "numCol (lp s) \<noteq> 0 \<Longrightarrow> select_engine E s = IpmWithCrossover \<Longrightarrow> run E s = run_ipm E s"
  by (simp_all add: run_def)

lemma ipm_count_within_limit:
  "ipm_iteration_count (info (report_of (run_ipm E s))) \<le> int (ipm_iteration_limit s)"
proof -
  obtain st ms count p where r: "run_within_budget (ipm_finished E) (ipm_step E)
      (ipm_iteration_limit s) 0 (ipm_start E) = ((st, ms), count, p)"
    by (metis prod.exhaust)
  from within_budget_count [OF r] have "count \<le> ipm_iteration_limit s"
    by simp
  with run_ipm_report [OF r] show ?thesis
    by simp
qed

lemma simplex_count_within_limit:
  "simplex_iteration_count (info (report_of (run_simplex E s)))
     \<le> int (simplex_iteration_limit s)"
proof -
  obtain st ms count b where r: "run_within_budget (simplex_finished E) (simplex_pivot E)
      (simplex_iteration_limit s) 0 (starting_basis E s) = ((st, ms), count, b)"
    by (metis prod.exhaust)
  from within_budget_count [OF r] have "count \<le> simplex_iteration_limit s"
    by simp
  with run_simplex_report [OF r] show ?thesis
    by simp
qed

lemma simplex_zero_limit:
  assumes "numCol (lp s) \<noteq> 0" and "select_engine E s = Simplex"
      and "simplex_iteration_limit s = 0"
  shows "zero_limit_run_requires True (report_of (run E s))"
proof -
  have "run_within_budget (simplex_finished E) (simplex_pivot E)
      (simplex_iteration_limit s) 0 (starting_basis E s)
      = ((kWarning, kIterationLimit), 0, starting_basis E s)"
    using assms(3) by simp
  from run_simplex_report [OF this] show ?thesis
    using assms(1,2) by (simp add: run_routes zero_limit_run_requires_def)
qed

lemma ipm_zero_limit:
  assumes "numCol (lp s) \<noteq> 0" and "select_engine E s = IpmWithCrossover"
      and "ipm_iteration_limit s = 0"
  shows "zero_limit_run_requires False (report_of (run E s))"
proof -
  have "run_within_budget (ipm_finished E) (ipm_step E)
      (ipm_iteration_limit s) 0 (ipm_start E)
      = ((kWarning, kIterationLimit), 0, ipm_start E)"
    using assms(3) by simp
  from run_ipm_report [OF this] show ?thesis
    using assms(1,2) by (simp add: run_routes zero_limit_run_requires_def)
qed

lemma simplex_budget_exhausted:
  assumes "numCol (lp s) \<noteq> 0" and "select_engine E s = Simplex"
      and "\<forall>i < simplex_iteration_limit s.
             simplex_finished E ((simplex_pivot E ^^ i) (starting_basis E s)) = None"
  shows "return_status (report_of (run E s)) = kWarning \<and>
         model_status (report_of (run E s)) = kIterationLimit \<and>
         simplex_iteration_count (info (report_of (run E s))) =
           int (simplex_iteration_limit s)"
proof -
  have "run_within_budget (simplex_finished E) (simplex_pivot E)
      (simplex_iteration_limit s) 0 (starting_basis E s)
      = ((kWarning, kIterationLimit), 0 + simplex_iteration_limit s,
         (simplex_pivot E ^^ simplex_iteration_limit s) (starting_basis E s))"
    using assms(3) by (rule within_budget_exhausted)
  from run_simplex_report [OF this] show ?thesis
    using assms(1,2) by (simp add: run_routes)
qed

lemma ipm_budget_exhausted:
  assumes "numCol (lp s) \<noteq> 0" and "select_engine E s = IpmWithCrossover"
      and "\<forall>i < ipm_iteration_limit s.
             ipm_finished E ((ipm_step E ^^ i) (ipm_start E)) = None"
  shows "return_status (report_of (run E s)) = kWarning \<and>
         model_status (report_of (run E s)) = kIterationLimit \<and>
         ipm_iteration_count (info (report_of (run E s))) = int (ipm_iteration_limit s)"
proof -
  have "run_within_budget (ipm_finished E) (ipm_step E)
      (ipm_iteration_limit s) 0 (ipm_start E)
      = ((kWarning, kIterationLimit), 0 + ipm_iteration_limit s,
         (ipm_step E ^^ ipm_iteration_limit s) (ipm_start E))"
    using assms(3) by (rule within_budget_exhausted)
  from run_ipm_report [OF this] show ?thesis
    using assms(1,2) by (simp add: run_routes)
qed

lemma counting_simplex_not_finished:
  "i < 12 \<Longrightarrow> simplex_finished counting_engines ((simplex_pivot counting_engines ^^ i) 0) = None"
  by (simp add: counting_engines_def)

lemma counting_ipm_not_finished:
  "i < 7 \<Longrightarrow> ipm_finished counting_engines ((ipm_step counting_engines ^^ i) 0) = None"
  by (simp add: counting_engines_def)

lemma run_simplex_keeps:
  "lp (snd (run_simplex E s)) = lp s"
  "solver (snd (run_simplex E s)) = solver s"
  "use_warm_start (snd (run_simplex E s)) = use_warm_start s"
  "simplex_iteration_limit (snd (run_simplex E s)) = simplex_iteration_limit s"
  "ipm_iteration_limit (snd (run_simplex E s)) = ipm_iteration_limit s"
  "basis (snd (run_simplex E s)) \<noteq> None"
  by (simp_all add: run_simplex_def split: prod.splits)

lemma run_ipm_keeps:
  "lp (snd (run_ipm E s)) = lp s"
  "solver (snd (run_ipm E s)) = solver s"
  "use_warm_start (snd (run_ipm E s)) = use_warm_start s"
  "simplex_iteration_limit (snd (run_ipm E s)) = simplex_iteration_limit s"
  "ipm_iteration_limit (snd (run_ipm E s)) = ipm_iteration_limit s"
  by (simp_all add: run_ipm_def split: prod.splits)

lemma report_of_fields:
  "model_status (report_of res) = recorded_model_status (snd res)"
  "info (report_of res) = recorded_info (snd res)"
  "return_status (report_of res) = fst res"
  by (simp_all add: report_of_def)

text \<open>
  The model agrees with the test case \<^verbatim>\<open>use_warm_start\<close> (lines 683 to 696): with
  \<^verbatim>\<open>use_warm_start\<close> switched off, a second run starts from the logical basis again and
  reports what the first run reported, the same iteration counts in particular.
\<close>

lemma select_engine_cold:
  "\<not> use_warm_start s \<Longrightarrow> solver s' = solver s \<Longrightarrow> use_warm_start s' = use_warm_start s
     \<Longrightarrow> select_engine E s' = select_engine E s"
  by (simp add: select_engine_def)

lemma starting_basis_cold:
  "\<not> use_warm_start s \<Longrightarrow> starting_basis E s = logical_basis E"
  by (simp add: starting_basis_def split: option.splits)

lemma cold_rerun_repeats:
  assumes "\<not> use_warm_start s"
  shows "report_of (run E (snd (run E s))) = report_of (run E s)"
proof (cases "numCol (lp s) = 0")
  case True
  then show ?thesis
    by (simp add: run_def report_of_def)
next
  case False
  show ?thesis
  proof (cases "select_engine E s")
    case Simplex
    let ?s' = "snd (run_simplex E s)"
    have first: "run E s = run_simplex E s"
      using False Simplex by (simp add: run_routes)
    have "select_engine E ?s' = Simplex"
      using select_engine_cold [OF assms, of ?s' E] Simplex by (simp add: run_simplex_keeps)
    then have rerun: "run E ?s' = run_simplex E ?s'"
      using False by (simp add: run_routes run_simplex_keeps)
    have "\<not> use_warm_start ?s'"
      using assms by (simp add: run_simplex_keeps)
    then have "report_of (run_simplex E ?s') = report_of (run_simplex E s)"
      using assms
      by (simp add: run_simplex_def [of E ?s'] starting_basis_cold run_simplex_keeps
          report_of_def)
         (simp add: run_simplex_def starting_basis_cold split: prod.splits)
    with first rerun show ?thesis by simp
  next
    case IpmWithCrossover
    let ?s' = "snd (run_ipm E s)"
    have first: "run E s = run_ipm E s"
      using False IpmWithCrossover by (simp add: run_routes)
    have "select_engine E ?s' = IpmWithCrossover"
      using select_engine_cold [OF assms, of ?s' E] IpmWithCrossover
      by (simp add: run_ipm_keeps)
    then have rerun: "run E ?s' = run_ipm E ?s'"
      using False by (simp add: run_routes run_ipm_keeps)
    have "report_of (run_ipm E ?s') = report_of (run_ipm E s)"
      by (simp add: run_ipm_def [of E ?s'] run_ipm_keeps report_of_def split: prod.splits)
         (simp add: run_ipm_def split: prod.splits)
    with first rerun show ?thesis by simp
  qed
qed

section \<open>Properties of the limit checks\<close>











section \<open>The status returned when a limit stops the run\<close>




section \<open>The iteration budget of the two engines\<close>

text \<open>
  Claim C4: for either engine, when the run is handed to that engine and its iteration
  limit is zero, the run performs zero iterations of that engine and returns Warning with
  model status IterationLimit, which is what the zero-limit requirement of the test file
  asks for; when the limit is a positive \<open>k\<close> and the engine does not finish within its
  first \<open>k\<close> iterates (the optimum is not reached earlier), the run returns Warning with
  IterationLimit after exactly \<open>k\<close> simplex iterations, respectively after at most \<open>k\<close>
  IPM iterations; and no IPM run performs more iterations than its limit. A run is handed
  to an engine when the LP has at least one column (an LP without columns is answered
  without any engine).
\<close>

theorem iteration_limit_contract:
  assumes "numCol (lp s) \<noteq> 0"
  shows "(select_engine E s = Simplex \<and> simplex_iteration_limit s = 0 \<longrightarrow>
            zero_limit_run_requires True (report_of (run E s)))
       \<and> (select_engine E s = IpmWithCrossover \<and> ipm_iteration_limit s = 0 \<longrightarrow>
            zero_limit_run_requires False (report_of (run E s)))
       \<and> (select_engine E s = Simplex \<and> 0 < simplex_iteration_limit s \<and>
            (\<forall>i < simplex_iteration_limit s.
               simplex_finished E ((simplex_pivot E ^^ i) (starting_basis E s)) = None) \<longrightarrow>
            return_status (report_of (run E s)) = kWarning \<and>
            model_status (report_of (run E s)) = kIterationLimit \<and>
            simplex_iteration_count (info (report_of (run E s))) =
              int (simplex_iteration_limit s))
       \<and> (select_engine E s = IpmWithCrossover \<and> 0 < ipm_iteration_limit s \<and>
            (\<forall>i < ipm_iteration_limit s.
               ipm_finished E ((ipm_step E ^^ i) (ipm_start E)) = None) \<longrightarrow>
            return_status (report_of (run E s)) = kWarning \<and>
            model_status (report_of (run E s)) = kIterationLimit \<and>
            ipm_iteration_count (info (report_of (run E s))) \<le>
              int (ipm_iteration_limit s))
       \<and> (select_engine E s = IpmWithCrossover \<longrightarrow>
            ipm_iteration_count (info (report_of (run E s))) \<le>
              int (ipm_iteration_limit s))"
proof -
  note nonempty = assms
  have a: "select_engine E s = Simplex \<and> simplex_iteration_limit s = 0 \<longrightarrow>
            zero_limit_run_requires True (report_of (run E s))"
    using simplex_zero_limit [OF nonempty] by blast
  have b: "select_engine E s = IpmWithCrossover \<and> ipm_iteration_limit s = 0 \<longrightarrow>
            zero_limit_run_requires False (report_of (run E s))"
    using ipm_zero_limit [OF nonempty] by blast
  have c: "select_engine E s = Simplex \<and> 0 < simplex_iteration_limit s \<and>
            (\<forall>i < simplex_iteration_limit s.
               simplex_finished E ((simplex_pivot E ^^ i) (starting_basis E s)) = None) \<longrightarrow>
            return_status (report_of (run E s)) = kWarning \<and>
            model_status (report_of (run E s)) = kIterationLimit \<and>
            simplex_iteration_count (info (report_of (run E s))) =
              int (simplex_iteration_limit s)"
    using simplex_budget_exhausted [OF nonempty] by blast
  have d: "select_engine E s = IpmWithCrossover \<and> 0 < ipm_iteration_limit s \<and>
            (\<forall>i < ipm_iteration_limit s.
               ipm_finished E ((ipm_step E ^^ i) (ipm_start E)) = None) \<longrightarrow>
            return_status (report_of (run E s)) = kWarning \<and>
            model_status (report_of (run E s)) = kIterationLimit \<and>
            ipm_iteration_count (info (report_of (run E s))) \<le>
              int (ipm_iteration_limit s)"
    using ipm_budget_exhausted [OF nonempty, of E] by auto
  have e: "select_engine E s = IpmWithCrossover \<longrightarrow>
            ipm_iteration_count (info (report_of (run E s))) \<le>
              int (ipm_iteration_limit s)"
    using ipm_count_within_limit [of E s] nonempty by (simp add: run_routes)
  from a b c d e show ?thesis by (intro conjI)
qed

theorem iteration_limit_contract_witness:
  "zero_limit_run_requires True
     (report_of (run counting_engines (loaded_orchestrator ''simplex'' 0 5)))
   \<and> zero_limit_run_requires False
     (report_of (run counting_engines (loaded_orchestrator ''ipm'' 10 0)))
   \<and> further_limit_run_requires True
     (report_of (run counting_engines (loaded_orchestrator ''simplex'' 10 5)))
   \<and> return_status (report_of (run counting_engines (loaded_orchestrator ''ipm'' 10 5)))
       = kWarning
   \<and> model_status (report_of (run counting_engines (loaded_orchestrator ''ipm'' 10 5)))
       = kIterationLimit
   \<and> ipm_iteration_count
       (info (report_of (run counting_engines (loaded_orchestrator ''ipm'' 10 5)))) \<le> 5
   \<and> ipm_iteration_count
       (info (report_of (run counting_engines (loaded_orchestrator ''ipm'' 10 50)))) \<le> 50"
proof -
  have n: "numCol (lp (loaded_orchestrator sv ks ki)) \<noteq> 0" for sv ks ki
    by (simp add: loaded_orchestrator_def blending_lp_def)
  have s: "select_engine counting_engines (loaded_orchestrator ''simplex'' ks ki) = Simplex"
    for ks ki
    by (simp add: select_engine_def loaded_orchestrator_def)
  have p: "select_engine counting_engines (loaded_orchestrator ''ipm'' ks ki)
             = IpmWithCrossover" for ks ki
    by (simp add: select_engine_def loaded_orchestrator_def)
  have l: "simplex_iteration_limit (loaded_orchestrator sv ks ki) = ks"
          "ipm_iteration_limit (loaded_orchestrator sv ks ki) = ki" for sv ks ki
    by (simp_all add: loaded_orchestrator_def)
  have b: "starting_basis counting_engines (loaded_orchestrator sv ks ki) = 0" for sv ks ki
    by (simp add: starting_basis_def loaded_orchestrator_def counting_engines_def)
  have i0: "ipm_start counting_engines = 0"
    by (simp add: counting_engines_def)
  have 1: "zero_limit_run_requires True
     (report_of (run counting_engines (loaded_orchestrator ''simplex'' 0 5)))"
    using iteration_limit_contract [OF n, of counting_engines "''simplex''" 0 5]
    by (simp add: s l)
  have 2: "zero_limit_run_requires False
     (report_of (run counting_engines (loaded_orchestrator ''ipm'' 10 0)))"
    using iteration_limit_contract [OF n, of counting_engines "''ipm''" 10 0]
    by (simp add: p l)
  have 3: "further_limit_run_requires True
     (report_of (run counting_engines (loaded_orchestrator ''simplex'' 10 5)))"
    using iteration_limit_contract [OF n, of counting_engines "''simplex''" 10 5]
    by (simp add: s l b counting_simplex_not_finished further_limit_run_requires_def
        further_simplex_iterations_def)
  have 4: "return_status (report_of (run counting_engines (loaded_orchestrator ''ipm'' 10 5)))
       = kWarning
   \<and> model_status (report_of (run counting_engines (loaded_orchestrator ''ipm'' 10 5)))
       = kIterationLimit
   \<and> ipm_iteration_count
       (info (report_of (run counting_engines (loaded_orchestrator ''ipm'' 10 5)))) \<le> 5"
    using iteration_limit_contract [OF n, of counting_engines "''ipm''" 10 5]
    by (simp add: p l i0 counting_ipm_not_finished)
  have 5: "ipm_iteration_count
       (info (report_of (run counting_engines (loaded_orchestrator ''ipm'' 10 50)))) \<le> 50"
    using iteration_limit_contract [OF n, of counting_engines "''ipm''" 10 50]
    by (simp add: p l)
  from 1 2 3 4 5 show ?thesis by (intro conjI) simp_all
qed

end
